theory Spec2Isabelle
  imports Complex_Main
begin

section \<open>Scalars, vectors and quaternions\<close>

text \<open>
  The kernel's number type (\<^verbatim>\<open>Kernel::number_type\<close>, \<^verbatim>\<open>double\<close> in the tests) is
  modelled by \<^typ>\<open>real\<close>: arithmetic is exact, so the approximate equalities of the
  tests become equalities. The linear-algebra primitives below are the ones of the Eigen
  library that the sources call on fixed-size 3-vectors and on quaternions, written out
  by coefficient.
\<close>

datatype vec3 = Vec3 (vx: real) (vy: real) (vz: real)

definition vzero :: vec3 where
  "vzero = Vec3 0 0 0"

definition vadd :: "vec3 \<Rightarrow> vec3 \<Rightarrow> vec3" where
  "vadd a b = Vec3 (vx a + vx b) (vy a + vy b) (vz a + vz b)"

definition vsub :: "vec3 \<Rightarrow> vec3 \<Rightarrow> vec3" where
  "vsub a b = Vec3 (vx a - vx b) (vy a - vy b) (vz a - vz b)"

definition vneg :: "vec3 \<Rightarrow> vec3" where
  "vneg a = Vec3 (- vx a) (- vy a) (- vz a)"

definition vscale :: "vec3 \<Rightarrow> real \<Rightarrow> vec3" where
  "vscale a s = Vec3 (vx a * s) (vy a * s) (vz a * s)"

definition vdiv :: "vec3 \<Rightarrow> real \<Rightarrow> vec3" where
  "vdiv a s = Vec3 (vx a / s) (vy a / s) (vz a / s)"

definition dot :: "vec3 \<Rightarrow> vec3 \<Rightarrow> real" where
  "dot a b = vx a * vx b + vy a * vy b + vz a * vz b"

definition cross :: "vec3 \<Rightarrow> vec3 \<Rightarrow> vec3" where
  "cross a b = Vec3 (vy a * vz b - vz a * vy b)
                    (vz a * vx b - vx a * vz b)
                    (vx a * vy b - vy a * vx b)"

definition squaredNorm :: "vec3 \<Rightarrow> real" where
  "squaredNorm a = vx a * vx a + vy a * vy a + vz a * vz a"

definition vnorm :: "vec3 \<Rightarrow> real" where
  "vnorm a = sqrt (squaredNorm a)"

text \<open>
  \<^verbatim>\<open>Eigen::Quaternion<Scalar>\<close>: the coefficients \<open>w\<close> (real part) and \<open>x, y, z\<close>.
  The type does not force the norm to be one.
\<close>

datatype quat = Quat (qw: real) (qx: real) (qy: real) (qz: real)

definition quat_Identity :: quat where
  "quat_Identity = Quat 1 0 0 0"

definition quat_vec :: "quat \<Rightarrow> vec3" where
  "quat_vec q = Vec3 (qx q) (qy q) (qz q)"

definition quat_squaredNorm :: "quat \<Rightarrow> real" where
  "quat_squaredNorm q = qw q * qw q + qx q * qx q + qy q * qy q + qz q * qz q"

definition quat_norm :: "quat \<Rightarrow> real" where
  "quat_norm q = sqrt (quat_squaredNorm q)"

text \<open>
  \<^verbatim>\<open>normalize()\<close> and \<^verbatim>\<open>normalized()\<close> divide the coefficients by the norm; a quaternion
  of norm zero is left as it is (in IEEE arithmetic without that guard the quotient is
  NaN; in either reading the zero quaternion does not become a unit quaternion).
\<close>

definition quat_normalized :: "quat \<Rightarrow> quat" where
  "quat_normalized q =
     (if 0 < quat_squaredNorm q
      then Quat (qw q / quat_norm q) (qx q / quat_norm q) (qy q / quat_norm q) (qz q / quat_norm q)
      else q)"

definition quat_conjugate :: "quat \<Rightarrow> quat" where
  "quat_conjugate q = Quat (qw q) (- qx q) (- qy q) (- qz q)"

text \<open>
  \<^verbatim>\<open>inverse()\<close>: the conjugate divided by the squared norm, and the zero quaternion
  when the squared norm is not positive.
\<close>

definition quat_inverse :: "quat \<Rightarrow> quat" where
  "quat_inverse q =
     (let n2 = quat_squaredNorm q
      in if 0 < n2 then Quat (qw q / n2) (- qx q / n2) (- qy q / n2) (- qz q / n2)
         else Quat 0 0 0 0)"

text \<open>The product of two quaternions (Hamilton product).\<close>

definition quat_mul :: "quat \<Rightarrow> quat \<Rightarrow> quat" where
  "quat_mul a b = Quat
     (qw a * qw b - qx a * qx b - qy a * qy b - qz a * qz b)
     (qw a * qx b + qx a * qw b + qy a * qz b - qz a * qy b)
     (qw a * qy b + qy a * qw b + qz a * qx b - qx a * qz b)
     (qw a * qz b + qz a * qw b + qx a * qy b - qy a * qx b)"

text \<open>
  A quaternion times a vector (\<^verbatim>\<open>_transformVector\<close>): with \<open>u\<close> the vector part,
  \<open>uv = 2 (u \<times> v)\<close> and the result is \<open>v + w uv + u \<times> uv\<close>. The formula is the rotation
  by \<open>q\<close> when \<open>q\<close> has norm one.
\<close>

definition quat_transformVector :: "quat \<Rightarrow> vec3 \<Rightarrow> vec3" where
  "quat_transformVector q v =
     (let uv0 = cross (quat_vec q) v;
          uv = vadd uv0 uv0
      in vadd (vadd v (vscale uv (qw q))) (cross (quat_vec q) uv))"

section \<open>The similarity transform (transformation.hpp, three dimensions)\<close>

text \<open>
  \<^verbatim>\<open>Transform<Scalar, 3>\<close>: the rotation is a quaternion, the translation a 3-vector,
  the scaling a single factor.
\<close>

record Transform =
  m_rotation :: quat
  m_translation :: vec3
  m_scale :: real

text \<open>The constructors.\<close>

definition Transform_default :: Transform where
  "Transform_default = \<lparr>m_rotation = quat_Identity, m_translation = vzero, m_scale = 1\<rparr>"

definition Transform_r :: "quat \<Rightarrow> Transform" where
  "Transform_r r = \<lparr>m_rotation = quat_normalized r, m_translation = vzero, m_scale = 1\<rparr>"

definition Transform_t :: "vec3 \<Rightarrow> Transform" where
  "Transform_t t = \<lparr>m_rotation = quat_Identity, m_translation = t, m_scale = 1\<rparr>"

definition Transform_s :: "real \<Rightarrow> Transform" where
  "Transform_s s = \<lparr>m_rotation = quat_Identity, m_translation = vzero, m_scale = s\<rparr>"

definition Transform_rt :: "quat \<Rightarrow> vec3 \<Rightarrow> Transform" where
  "Transform_rt r t = \<lparr>m_rotation = quat_normalized r, m_translation = t, m_scale = 1\<rparr>"

definition Transform_rts :: "quat \<Rightarrow> vec3 \<Rightarrow> real \<Rightarrow> Transform" where
  "Transform_rts r t s = \<lparr>m_rotation = quat_normalized r, m_translation = t, m_scale = s\<rparr>"

text \<open>Access to the single parts. Each mutating member returns the updated object.\<close>

definition setRotation :: "Transform \<Rightarrow> quat \<Rightarrow> Transform" where
  "setRotation T rotation = T\<lparr>m_rotation := quat_normalized rotation\<rparr>"

definition rotateT :: "Transform \<Rightarrow> quat \<Rightarrow> Transform" where
  "rotateT T rotation = T\<lparr>m_rotation := quat_mul (quat_normalized rotation) (m_rotation T)\<rparr>"

definition setTranslation :: "Transform \<Rightarrow> vec3 \<Rightarrow> Transform" where
  "setTranslation T translation = T\<lparr>m_translation := translation\<rparr>"

text \<open>The product of two \<^verbatim>\<open>Eigen::Translation\<close>s adds their vectors.\<close>

definition translateT :: "Transform \<Rightarrow> vec3 \<Rightarrow> Transform" where
  "translateT T translation = T\<lparr>m_translation := vadd (m_translation T) translation\<rparr>"

definition setScale :: "Transform \<Rightarrow> real \<Rightarrow> Transform" where
  "setScale T scaling = T\<lparr>m_scale := scaling\<rparr>"

definition scaleT :: "Transform \<Rightarrow> real \<Rightarrow> Transform" where
  "scaleT T scaling = T\<lparr>m_scale := m_scale T * scaling\<rparr>"

text \<open>
  \<^verbatim>\<open>invert()\<close> updates the fields in sequence: the new translation is computed with
  the rotation already inverted and the scale not yet inverted.
\<close>

definition invert :: "Transform \<Rightarrow> Transform" where
  "invert T =
     (let T1 = T\<lparr>m_rotation := quat_inverse (m_rotation T)\<rparr>;
          T2 = T1\<lparr>m_translation :=
                 vscale (quat_transformVector (m_rotation T1) (m_translation T1)) (- m_scale T1)\<rparr>
      in T2\<lparr>m_scale := 1 / m_scale T2\<rparr>)"

definition inverseT :: "Transform \<Rightarrow> Transform" where
  "inverseT T = invert T"

text \<open>The assignment operators from a single part reset the other two parts.\<close>

definition assign_t :: "Transform \<Rightarrow> vec3 \<Rightarrow> Transform" where
  "assign_t T t = T\<lparr>m_translation := t, m_rotation := quat_Identity, m_scale := 1\<rparr>"

definition assign_s :: "Transform \<Rightarrow> real \<Rightarrow> Transform" where
  "assign_s T s = T\<lparr>m_scale := s, m_translation := vzero, m_rotation := quat_Identity\<rparr>"

definition assign_r :: "Transform \<Rightarrow> quat \<Rightarrow> Transform" where
  "assign_r T r = T\<lparr>m_rotation := quat_normalized r, m_translation := vzero, m_scale := 1\<rparr>"

definition mul_assign_t :: "Transform \<Rightarrow> vec3 \<Rightarrow> Transform" where
  "mul_assign_t T t = translateT T t"

definition mul_assign_s :: "Transform \<Rightarrow> real \<Rightarrow> Transform" where
  "mul_assign_s T s = scaleT T s"

definition mul_assign_r :: "Transform \<Rightarrow> quat \<Rightarrow> Transform" where
  "mul_assign_r T r = rotateT T r"

text \<open>Transforming vectors. The members that work in place return the new vector.\<close>

definition rotate_vec :: "Transform \<Rightarrow> vec3 \<Rightarrow> vec3" where
  "rotate_vec T vec = quat_transformVector (m_rotation T) vec"

definition translate_vec :: "Transform \<Rightarrow> vec3 \<Rightarrow> vec3" where
  "translate_vec T vec = vadd (m_translation T) vec"

definition scale_vec :: "Transform \<Rightarrow> vec3 \<Rightarrow> vec3" where
  "scale_vec T vec = vscale vec (m_scale T)"

definition transform :: "Transform \<Rightarrow> vec3 \<Rightarrow> vec3" where
  "transform T vec =
     vscale (vadd (quat_transformVector (m_rotation T) vec) (m_translation T)) (m_scale T)"

definition mul_vec :: "Transform \<Rightarrow> vec3 \<Rightarrow> vec3" where
  "mul_vec T vec =
     vscale (vadd (quat_transformVector (m_rotation T) vec) (m_translation T)) (m_scale T)"

text \<open>
  \<^verbatim>\<open>operator*=(const Transform& other)\<close>, statement by statement, for a right operand
  that is an object of its own: \<^verbatim>\<open>operator*\<close> copies the left operand before it
  calls \<^verbatim>\<open>operator*=\<close>, so it is the same function of the two values.
\<close>

definition mul_assign :: "Transform \<Rightarrow> Transform \<Rightarrow> Transform" where
  "mul_assign T other =
     (let T1 = rotateT T (m_rotation other);
          T2 = T1\<lparr>m_translation := rotate_vec other (m_translation T1)\<rparr>;
          T3 = T2\<lparr>m_translation := vadd (m_translation T2) (vdiv (m_translation other) (m_scale T2))\<rparr>
      in T3\<lparr>m_scale := m_scale T3 * m_scale other\<rparr>)"

definition mul :: "Transform \<Rightarrow> Transform \<Rightarrow> Transform" where
  "mul T other = mul_assign T other"

text \<open>
  The same four statements when the right operand is the object itself
  (\<^verbatim>\<open>A *= A\<close>): \<^verbatim>\<open>other\<close> is then a second name for the object under update, and
  each statement reads the fields as the statements before it left them.
\<close>

definition mul_assign_self :: "Transform \<Rightarrow> Transform" where
  "mul_assign_self T =
     (let T1 = rotateT T (m_rotation T);
          T2 = T1\<lparr>m_translation := rotate_vec T1 (m_translation T1)\<rparr>;
          T3 = T2\<lparr>m_translation := vadd (m_translation T2) (vdiv (m_translation T2) (m_scale T2))\<rparr>
      in T3\<lparr>m_scale := m_scale T3 * m_scale T3\<rparr>)"

definition setIdentity :: "Transform \<Rightarrow> Transform" where
  "setIdentity T = T\<lparr>m_rotation := quat_Identity, m_translation := vzero, m_scale := 1\<rparr>"

definition Identity :: Transform where
  "Identity = Transform_rts quat_Identity vzero 1"

definition normalizeT :: "Transform \<Rightarrow> Transform" where
  "normalizeT T = T\<lparr>m_rotation := quat_normalized (m_rotation T)\<rparr>"

section \<open>The parallelism kernel (parallel.hpp)\<close>

datatype Direction = Same | Opposite | Both

text \<open>
  A failed \<^verbatim>\<open>assert\<close> aborts the program; the functions that can reach one return a
  sum, with the abort on the left.
\<close>

datatype error = AssertionFailed

fun calc :: "vec3 \<Rightarrow> vec3 \<Rightarrow> Direction \<Rightarrow> real" where
  "calc d1 d2 Same = vnorm (vsub d1 d2)"
| "calc d1 d2 Opposite = vnorm (vadd d1 d2)"
| "calc d1 d2 Both =
     (if dot d1 d2 \<ge> 0 then vnorm (vsub d1 d2) else vnorm (vadd d1 d2))"

fun calcGradFirst :: "vec3 \<Rightarrow> vec3 \<Rightarrow> vec3 \<Rightarrow> Direction \<Rightarrow> real" where
  "calcGradFirst d1 d2 dd1 Same = dot (vsub d1 d2) dd1 / vnorm (vsub d1 d2)"
| "calcGradFirst d1 d2 dd1 Opposite = dot (vadd d1 d2) dd1 / vnorm (vadd d1 d2)"
| "calcGradFirst d1 d2 dd1 Both =
     (if dot d1 d2 \<ge> 0 then dot (vsub d1 d2) dd1 / vnorm (vsub d1 d2)
      else dot (vadd d1 d2) dd1 / vnorm (vadd d1 d2))"

fun calcGradSecond :: "vec3 \<Rightarrow> vec3 \<Rightarrow> vec3 \<Rightarrow> Direction \<Rightarrow> real" where
  "calcGradSecond d1 d2 dd2 Same = dot (vsub d1 d2) (vneg dd2) / vnorm (vsub d1 d2)"
| "calcGradSecond d1 d2 dd2 Opposite = dot (vadd d1 d2) dd2 / vnorm (vadd d1 d2)"
| "calcGradSecond d1 d2 dd2 Both =
     (if dot d1 d2 \<ge> 0 then dot (vsub d1 d2) (vneg dd2) / vnorm (vsub d1 d2)
      else dot (vadd d1 d2) dd2 / vnorm (vadd d1 d2))"

text \<open>
  The full gradients write their result through the view \<^verbatim>\<open>grad\<close>; the model returns
  the three values written. All gradients divide by a norm that is zero when the two
  directions coincide (are opposite, in the \<open>Opposite\<close> branch); the sources have no
  guard, and at such inputs the quotient of the model, zero, is not the one of IEEE
  arithmetic.
\<close>

fun calcGradFirstComp :: "vec3 \<Rightarrow> vec3 \<Rightarrow> Direction \<Rightarrow> error + vec3" where
  "calcGradFirstComp d1 d2 Same = Inr (vdiv (vsub d1 d2) (vnorm (vsub d1 d2)))"
| "calcGradFirstComp d1 d2 Opposite = Inr (vdiv (vadd d1 d2) (vnorm (vadd d1 d2)))"
| "calcGradFirstComp d1 d2 Both = Inl AssertionFailed"

fun calcGradSecondComp :: "vec3 \<Rightarrow> vec3 \<Rightarrow> Direction \<Rightarrow> error + vec3" where
  "calcGradSecondComp d1 d2 Same = Inr (vdiv (vsub d2 d1) (vnorm (vsub d1 d2)))"
| "calcGradSecondComp d1 d2 Opposite = Inr (vdiv (vadd d2 d1) (vnorm (vadd d1 d2)))"
| "calcGradSecondComp d1 d2 Both = Inl AssertionFailed"

subsection \<open>Parameter blocks\<close>

text \<open>
  A parameter block (\<^verbatim>\<open>Kernel::VectorMap\<close>) is a vector of dynamic size, here a list.
  Its length is fixed by the geometry type, which is declared outside the sources, so
  the model takes it from the list it is given. The fixed-size views \<^verbatim>\<open>head<3>()\<close>,
  \<^verbatim>\<open>tail<3>()\<close> and \<^verbatim>\<open>segment<3>(i)\<close> assert that they lie inside the vector.
\<close>

definition head3_setZero :: "real list \<Rightarrow> error + real list" where
  "head3_setZero g =
     (if length g < 3 then Inl AssertionFailed else Inr (g[0 := 0, 1 := 0, 2 := 0]))"

definition tail3 :: "real list \<Rightarrow> error + vec3" where
  "tail3 p =
     (let n = length p
      in if n < 3 then Inl AssertionFailed
         else Inr (Vec3 (p ! (n - 3)) (p ! (n - 2)) (p ! (n - 1))))"

definition tail3_assign :: "real list \<Rightarrow> vec3 \<Rightarrow> error + real list" where
  "tail3_assign g v =
     (let n = length g
      in if n < 3 then Inl AssertionFailed
         else Inr (g[n - 3 := vx v, n - 2 := vy v, n - 1 := vz v]))"

definition segment3 :: "real list \<Rightarrow> nat \<Rightarrow> error + vec3" where
  "segment3 p i =
     (if length p < i + 3 then Inl AssertionFailed
      else Inr (Vec3 (p ! i) (p ! (i + 1)) (p ! (i + 2))))"

definition segment3_assign :: "real list \<Rightarrow> nat \<Rightarrow> vec3 \<Rightarrow> error + real list" where
  "segment3_assign g i v =
     (if length g < i + 3 then Inl AssertionFailed
      else Inr (g[i := vx v, i + 1 := vy v, i + 2 := vz v]))"

text \<open>
  \<^verbatim>\<open>Parallel3D<Kernel, line3D, line3D>\<close>, which the plane/plane and line/plane
  constraints inherit. The gradient buffer is the caller's; the function returns it as
  it leaves it. The buffer is taken to be storage of its own, apart from the two
  parameter blocks.
\<close>

definition line_calculate :: "Direction \<Rightarrow> real list \<Rightarrow> real list \<Rightarrow> error + real" where
  "line_calculate m_dir param1 param2 =
     (case tail3 param1 of Inl e \<Rightarrow> Inl e | Inr d1 \<Rightarrow>
      case tail3 param2 of Inl e \<Rightarrow> Inl e | Inr d2 \<Rightarrow> Inr (calc d1 d2 m_dir))"

definition line_calculateGradientFirstComplete ::
  "Direction \<Rightarrow> real list \<Rightarrow> real list \<Rightarrow> real list \<Rightarrow> error + real list" where
  "line_calculateGradientFirstComplete m_dir param1 param2 gradient =
     (case head3_setZero gradient of Inl e \<Rightarrow> Inl e | Inr g0 \<Rightarrow>
      case tail3 param1 of Inl e \<Rightarrow> Inl e | Inr d1 \<Rightarrow>
      case tail3 param2 of Inl e \<Rightarrow> Inl e | Inr d2 \<Rightarrow>
      case calcGradFirstComp d1 d2 m_dir of Inl e \<Rightarrow> Inl e | Inr grad \<Rightarrow>
        tail3_assign g0 grad)"

definition line_calculateGradientSecondComplete ::
  "Direction \<Rightarrow> real list \<Rightarrow> real list \<Rightarrow> real list \<Rightarrow> error + real list" where
  "line_calculateGradientSecondComplete m_dir param1 param2 gradient =
     (case head3_setZero gradient of Inl e \<Rightarrow> Inl e | Inr g0 \<Rightarrow>
      case tail3 param1 of Inl e \<Rightarrow> Inl e | Inr d1 \<Rightarrow>
      case tail3 param2 of Inl e \<Rightarrow> Inl e | Inr d2 \<Rightarrow>
      case calcGradSecondComp d1 d2 m_dir of Inl e \<Rightarrow> Inl e | Inr grad \<Rightarrow>
        tail3_assign g0 grad)"

text \<open>\<^verbatim>\<open>Parallel3D<Kernel, cylinder3D, cylinder3D>\<close>: the axis is the segment 3 to 5.\<close>

definition cylinder_calculate :: "Direction \<Rightarrow> real list \<Rightarrow> real list \<Rightarrow> error + real" where
  "cylinder_calculate m_dir param1 param2 =
     (case segment3 param1 3 of Inl e \<Rightarrow> Inl e | Inr d1 \<Rightarrow>
      case segment3 param2 3 of Inl e \<Rightarrow> Inl e | Inr d2 \<Rightarrow> Inr (calc d1 d2 m_dir))"

definition cylinder_calculateGradientFirstComplete ::
  "Direction \<Rightarrow> real list \<Rightarrow> real list \<Rightarrow> real list \<Rightarrow> error + real list" where
  "cylinder_calculateGradientFirstComplete m_dir param1 param2 gradient =
     (case head3_setZero gradient of Inl e \<Rightarrow> Inl e | Inr g0 \<Rightarrow>
      case segment3 param1 3 of Inl e \<Rightarrow> Inl e | Inr d1 \<Rightarrow>
      case segment3 param2 3 of Inl e \<Rightarrow> Inl e | Inr d2 \<Rightarrow>
      case calcGradFirstComp d1 d2 m_dir of Inl e \<Rightarrow> Inl e | Inr grad \<Rightarrow>
        segment3_assign g0 3 grad)"

definition cylinder_calculateGradientSecondComplete ::
  "Direction \<Rightarrow> real list \<Rightarrow> real list \<Rightarrow> real list \<Rightarrow> error + real list" where
  "cylinder_calculateGradientSecondComplete m_dir param1 param2 gradient =
     (case head3_setZero gradient of Inl e \<Rightarrow> Inl e | Inr g0 \<Rightarrow>
      case segment3 param1 3 of Inl e \<Rightarrow> Inl e | Inr d1 \<Rightarrow>
      case segment3 param2 3 of Inl e \<Rightarrow> Inl e | Inr d2 \<Rightarrow>
      case calcGradSecondComp d1 d2 m_dir of Inl e \<Rightarrow> Inl e | Inr grad \<Rightarrow>
        segment3_assign g0 3 grad)"

section \<open>Quaternion algebra\<close>

text \<open>
  The vector product of a quaternion is compared with the polynomial form of the
  conjugation \<open>q v q\<^sup>*\<close>, written \<open>quat_sandwich\<close> below: the two differ by
  \<open>(1 - |q|\<^sup>2) v\<close>, and the conjugation is multiplicative for all quaternions.
\<close>

definition quat_sandwich :: "quat \<Rightarrow> vec3 \<Rightarrow> vec3" where
  "quat_sandwich q v =
     vadd (vadd (vscale v (qw q * qw q - squaredNorm (quat_vec q)))
                (vscale (quat_vec q) (2 * dot (quat_vec q) v)))
          (vscale (cross (quat_vec q) v) (2 * qw q))"

lemmas vec_defs = vzero_def vadd_def vsub_def vneg_def vscale_def vdiv_def dot_def cross_def
  squaredNorm_def quat_vec_def

lemma quat_squaredNorm_mul:
  "quat_squaredNorm (quat_mul a b) = quat_squaredNorm a * quat_squaredNorm b"
  by (simp add: quat_squaredNorm_def quat_mul_def) algebra

lemma transformVector_sandwich:
  "quat_transformVector q v = vadd (quat_sandwich q v) (vscale v (1 - quat_squaredNorm q))"
  by (simp add: quat_transformVector_def quat_sandwich_def quat_squaredNorm_def Let_def vec_defs) algebra

lemma sandwich_mul:
  "quat_sandwich (quat_mul a b) v = quat_sandwich a (quat_sandwich b v)"
  apply (simp add: quat_sandwich_def quat_mul_def vec_defs)
  apply (intro conjI)
    apply algebra
   apply algebra
  apply algebra
  done

lemma sandwich_conjugate:
  "quat_sandwich (quat_conjugate q) (quat_sandwich q v) = vscale v (quat_squaredNorm q * quat_squaredNorm q)"
  apply (simp add: quat_sandwich_def quat_conjugate_def quat_squaredNorm_def vec_defs)
  apply (intro conjI)
    apply algebra
   apply algebra
  apply algebra
  done

lemma quat_norm_1_iff: "quat_norm q = 1 \<longleftrightarrow> quat_squaredNorm q = 1"
  by (simp add: quat_norm_def)

lemma quat_squaredNorm_nonneg: "0 \<le> quat_squaredNorm q"
  by (simp add: quat_squaredNorm_def)

lemma quat_squaredNorm_pos_iff: "0 < quat_squaredNorm q \<longleftrightarrow> q \<noteq> Quat 0 0 0 0"
proof (cases q)
  case (Quat w x y z)
  have a: "0 \<le> w * w + x * x" and b: "0 \<le> y * y + z * z"
    by simp_all
  have "(w * w + x * x) + (y * y + z * z) = 0 \<longleftrightarrow> w = 0 \<and> x = 0 \<and> y = 0 \<and> z = 0"
    using add_nonneg_eq_0_iff [OF a b] by (simp add: sum_squares_eq_zero_iff)
  moreover have "0 \<le> (w * w + x * x) + (y * y + z * z)"
    using a b by linarith
  ultimately have "0 < (w * w + x * x) + (y * y + z * z) \<longleftrightarrow> \<not> (w = 0 \<and> x = 0 \<and> y = 0 \<and> z = 0)"
    by linarith
  then show ?thesis using Quat
    by (simp add: quat_squaredNorm_def add.assoc)
qed

lemma transformVector_unit_sandwich:
  "quat_norm q = 1 \<Longrightarrow> quat_transformVector q v = quat_sandwich q v"
  by (simp add: transformVector_sandwich quat_norm_1_iff vec_defs)

lemma quat_norm_mul: "quat_norm (quat_mul a b) = quat_norm a * quat_norm b"
  by (simp add: quat_norm_def quat_squaredNorm_mul real_sqrt_mult)

lemma quat_normalized_unit: "quat_norm q = 1 \<Longrightarrow> quat_normalized q = q"
  by (simp add: quat_normalized_def quat_norm_1_iff) (simp add: quat_norm_def)

lemma quat_norm_normalized:
  assumes "q \<noteq> Quat 0 0 0 0"
  shows "quat_norm (quat_normalized q) = 1"
proof -
  have pos: "0 < quat_squaredNorm q" using assms by (simp add: quat_squaredNorm_pos_iff)
  define n where "n = quat_norm q"
  have n2: "n * n = quat_squaredNorm q" and npos: "0 < n"
    using pos by (simp_all add: n_def quat_norm_def)
  have "quat_squaredNorm (Quat (qw q / n) (qx q / n) (qy q / n) (qz q / n))
        = quat_squaredNorm q / (n * n)"
    by (simp add: quat_squaredNorm_def add_divide_distrib)
  also have "\<dots> = 1" using pos by (simp add: n2)
  finally show ?thesis using pos
    by (simp add: quat_normalized_def quat_norm_1_iff n_def [symmetric])
qed

lemma quat_inverse_unit: "quat_norm q = 1 \<Longrightarrow> quat_inverse q = quat_conjugate q"
  by (simp add: quat_inverse_def quat_conjugate_def quat_norm_1_iff Let_def)

lemma quat_squaredNorm_conjugate: "quat_squaredNorm (quat_conjugate q) = quat_squaredNorm q"
  by (simp add: quat_squaredNorm_def quat_conjugate_def)

lemma quat_norm_inverse_unit: "quat_norm q = 1 \<Longrightarrow> quat_norm (quat_inverse q) = 1"
  by (simp add: quat_inverse_unit) (simp add: quat_norm_def quat_squaredNorm_conjugate)

lemma quat_norm_Identity: "quat_norm quat_Identity = 1"
  by (simp add: quat_norm_def quat_squaredNorm_def quat_Identity_def)

lemma transformVector_mul:
  assumes "quat_norm a = 1" "quat_norm b = 1"
  shows "quat_transformVector (quat_mul a b) v = quat_transformVector a (quat_transformVector b v)"
proof -
  have "quat_norm (quat_mul a b) = 1" using assms by (simp add: quat_norm_mul)
  then show ?thesis using assms
    by (simp add: transformVector_unit_sandwich sandwich_mul)
qed

lemma transformVector_inverse:
  assumes "quat_norm q = 1"
  shows "quat_transformVector (quat_inverse q) (quat_transformVector q v) = v"
proof -
  have u: "quat_norm (quat_conjugate q) = 1"
    using assms by (simp add: quat_norm_def quat_squaredNorm_conjugate)
  have "quat_sandwich (quat_conjugate q) (quat_sandwich q v) = v"
    using assms by (simp add: sandwich_conjugate quat_norm_1_iff vec_defs)
  then show ?thesis using assms u
    by (simp add: quat_inverse_unit transformVector_unit_sandwich)
qed

lemma transformVector_vadd:
  "quat_transformVector q (vadd a b) = vadd (quat_transformVector q a) (quat_transformVector q b)"
  by (simp add: quat_transformVector_def Let_def vec_defs algebra_simps)

lemma transformVector_vscale:
  "quat_transformVector q (vscale a s) = vscale (quat_transformVector q a) s"
  by (simp add: quat_transformVector_def Let_def vec_defs algebra_simps)

lemma transformVector_Identity: "quat_transformVector quat_Identity v = v"
  by (simp add: quat_transformVector_def Let_def vec_defs quat_Identity_def)

lemma quat_mul_Identity_left: "quat_mul quat_Identity q = q"
  by (simp add: quat_mul_def quat_Identity_def)


lemma mul_assign_fields:
  "m_rotation (mul_assign A B) = quat_mul (quat_normalized (m_rotation B)) (m_rotation A)"
  "m_translation (mul_assign A B)
     = vadd (quat_transformVector (m_rotation B) (m_translation A))
            (vdiv (m_translation B) (m_scale A))"
  "m_scale (mul_assign A B) = m_scale A * m_scale B"
  by (simp_all add: mul_assign_def rotateT_def rotate_vec_def Let_def)

lemma invert_fields:
  "m_rotation (invert T) = quat_inverse (m_rotation T)"
  "m_translation (invert T)
     = vscale (quat_transformVector (quat_inverse (m_rotation T)) (m_translation T)) (- m_scale T)"
  "m_scale (invert T) = 1 / m_scale T"
  by (simp_all add: invert_def Let_def)

lemma transform_mul_assign:
  assumes "quat_norm (m_rotation A) = 1" and "quat_norm (m_rotation B) = 1"
    and "m_scale A \<noteq> 0"
  shows "transform (mul_assign A B) v = transform B (transform A v)"
proof -
  have rot: "m_rotation (mul_assign A B) = quat_mul (m_rotation B) (m_rotation A)"
    using assms(2) by (simp add: mul_assign_fields quat_normalized_unit)
  show ?thesis
    unfolding transform_def rot mul_assign_fields(2,3)
    using assms(3)
    by (simp add: transformVector_mul [OF assms(2) assms(1)] transformVector_vadd transformVector_vscale)
       (simp add: vec_defs algebra_simps)
qed

lemma transform_invert:
  assumes "quat_norm (m_rotation T) = 1" and "m_scale T \<noteq> 0"
  shows "transform (invert T) (transform T v) = v"
proof -
  let ?r = "m_rotation T"
  have rt: "quat_transformVector (quat_inverse ?r) (quat_transformVector ?r v) = v"
    by (rule transformVector_inverse [OF assms(1)])
  have "transform (invert T) (transform T v)
      = vscale (vadd (vscale (vadd v (quat_transformVector (quat_inverse ?r) (m_translation T))) (m_scale T))
                     (vscale (quat_transformVector (quat_inverse ?r) (m_translation T)) (- m_scale T)))
               (1 / m_scale T)"
    unfolding transform_def invert_fields
    by (simp add: transformVector_vadd transformVector_vscale rt)
  also have "\<dots> = v"
    using assms(2) by (intro vec3.expand) (simp add: vec_defs algebra_simps)
  finally show ?thesis .
qed

lemma quat_normalized_idem: "quat_normalized (quat_normalized q) = quat_normalized q"
proof (cases "q = Quat 0 0 0 0")
  case True
  then show ?thesis by (simp add: quat_normalized_def quat_squaredNorm_def)
next
  case False
  then show ?thesis by (simp add: quat_norm_normalized quat_normalized_unit)
qed

lemma quat_normalized_Identity: "quat_normalized quat_Identity = quat_Identity"
  by (simp add: quat_normalized_unit quat_norm_Identity)

lemma transformVector_vzero: "quat_transformVector q vzero = vzero"
  by (simp add: quat_transformVector_def Let_def vec_defs)

lemma vadd_vzero: "vadd a vzero = a" "vdiv vzero s = vzero"
  by (simp_all add: vec_defs)

section \<open>Composition and inversion of transforms\<close>

text \<open>
  The composition law for a right operand that is a separate object, which is every
  call of \<^verbatim>\<open>operator*\<close>: for transforms \<open>A\<close> and \<open>B\<close> with unit rotations and
  positive scales and every vector \<open>v\<close>, the product maps \<open>v\<close> to what \<open>B\<close> makes of
  \<open>A\<close> applied to \<open>v\<close>, a transform acting by \<open>scale * (rotation * v + translation)\<close>.
\<close>

lemma mul_acts_left_then_right:
  assumes "quat_norm (m_rotation A) = 1" and "quat_norm (m_rotation B) = 1"
    and "0 < m_scale A" and "0 < m_scale B"
  shows "mul_vec (mul A B) v = mul_vec B (mul_vec A v)
       \<and> transform (mul_assign A B) v = transform B (transform A v)"
  using transform_mul_assign [of A B v] assms
  by (simp add: mul_def mul_vec_def transform_def)

lemma mul_acts_left_then_right_example:
  "quat_norm (m_rotation (Transform_rts (Quat 0 0 0 1) (Vec3 1 2 3) 2)) = 1
   \<and> quat_norm (m_rotation (Transform_rts (Quat 0 1 0 0) (Vec3 4 5 6) 3)) = 1
   \<and> 0 < m_scale (Transform_rts (Quat 0 0 0 1) (Vec3 1 2 3) 2)
   \<and> 0 < m_scale (Transform_rts (Quat 0 1 0 0) (Vec3 4 5 6) 3)
   \<and> mul_vec (mul (Transform_rts (Quat 0 0 0 1) (Vec3 1 2 3) 2)
                   (Transform_rts (Quat 0 1 0 0) (Vec3 4 5 6) 3)) (Vec3 1 1 1)
     = mul_vec (Transform_rts (Quat 0 1 0 0) (Vec3 4 5 6) 3)
               (mul_vec (Transform_rts (Quat 0 0 0 1) (Vec3 1 2 3) 2) (Vec3 1 1 1))
   \<and> mul_vec (Transform_rts (Quat 0 1 0 0) (Vec3 4 5 6) 3)
               (mul_vec (Transform_rts (Quat 0 0 0 1) (Vec3 1 2 3) 2) (Vec3 1 1 1))
     = Vec3 12 9 (- 6)"
proof -
  have n1: "quat_normalized (Quat 0 0 0 1) = Quat 0 0 0 1"
    and n2: "quat_normalized (Quat 0 1 0 0) = Quat 0 1 0 0"
    by (simp_all add: quat_normalized_def quat_norm_def quat_squaredNorm_def)
  have h1: "quat_norm (m_rotation (Transform_rts (Quat 0 0 0 1) (Vec3 1 2 3) 2)) = 1"
    and h2: "quat_norm (m_rotation (Transform_rts (Quat 0 1 0 0) (Vec3 4 5 6) 3)) = 1"
    by (simp_all add: Transform_rts_def n1 n2 quat_norm_def quat_squaredNorm_def)
  have h3: "0 < m_scale (Transform_rts (Quat 0 0 0 1) (Vec3 1 2 3) 2)"
    and h4: "0 < m_scale (Transform_rts (Quat 0 1 0 0) (Vec3 4 5 6) 3)"
    by (simp_all add: Transform_rts_def)
  have val: "mul_vec (Transform_rts (Quat 0 1 0 0) (Vec3 4 5 6) 3)
               (mul_vec (Transform_rts (Quat 0 0 0 1) (Vec3 1 2 3) 2) (Vec3 1 1 1))
     = Vec3 12 9 (- 6)"
    by (simp add: mul_vec_def Transform_rts_def n1 n2 quat_transformVector_def Let_def vec_defs)
  show ?thesis
    using mul_acts_left_then_right [OF h1 h2 h3 h4, of "Vec3 1 1 1"] h1 h2 h3 h4 val by simp
qed

text \<open>
  Claim C2. For a transform \<open>T\<close> with unit rotation and non-zero scale and every
  vector \<open>v\<close>, the inverted transform takes \<open>T(v)\<close> back to \<open>v\<close>; equivalently the
  product of \<open>T\<close> with its inverse leaves every vector where it is.
\<close>

theorem invert_undoes_transform:
  assumes "quat_norm (m_rotation T) = 1" and "m_scale T \<noteq> 0"
  shows "transform (invert T) (transform T v) = v
       \<and> mul_vec (inverseT T) (mul_vec T v) = v
       \<and> mul_vec (mul T (inverseT T)) v = v"
proof -
  have inv: "transform (invert T) (transform T v) = v"
    by (rule transform_invert [OF assms])
  have "quat_norm (m_rotation (invert T)) = 1"
    using assms(1) by (simp add: invert_fields quat_norm_inverse_unit)
  then have "transform (mul_assign T (invert T)) v = transform (invert T) (transform T v)"
    using assms by (intro transform_mul_assign)
  with inv show ?thesis
    by (simp add: mul_def mul_vec_def inverseT_def transform_def)
qed

theorem invert_undoes_transform_witness:
  "quat_norm (m_rotation (Transform_rts (Quat 0 0 0 1) (Vec3 1 2 3) 2)) = 1
   \<and> m_scale (Transform_rts (Quat 0 0 0 1) (Vec3 1 2 3) 2) \<noteq> 0
   \<and> transform (Transform_rts (Quat 0 0 0 1) (Vec3 1 2 3) 2) (Vec3 1 1 1) = Vec3 0 2 8
   \<and> transform (invert (Transform_rts (Quat 0 0 0 1) (Vec3 1 2 3) 2)) (Vec3 0 2 8) = Vec3 1 1 1
   \<and> mul_vec (mul (Transform_rts (Quat 0 0 0 1) (Vec3 1 2 3) 2)
                   (inverseT (Transform_rts (Quat 0 0 0 1) (Vec3 1 2 3) 2))) (Vec3 1 1 1)
     = Vec3 1 1 1"
proof -
  have n1: "quat_normalized (Quat 0 0 0 1) = Quat 0 0 0 1"
    by (simp add: quat_normalized_def quat_norm_def quat_squaredNorm_def)
  have h1: "quat_norm (m_rotation (Transform_rts (Quat 0 0 0 1) (Vec3 1 2 3) 2)) = 1"
    by (simp add: Transform_rts_def n1 quat_norm_def quat_squaredNorm_def)
  have h2: "m_scale (Transform_rts (Quat 0 0 0 1) (Vec3 1 2 3) 2) \<noteq> 0"
    by (simp add: Transform_rts_def)
  have val: "transform (Transform_rts (Quat 0 0 0 1) (Vec3 1 2 3) 2) (Vec3 1 1 1) = Vec3 0 2 8"
    by (simp add: transform_def Transform_rts_def n1 quat_transformVector_def Let_def vec_defs)
  show ?thesis
    using invert_undoes_transform [OF h1 h2, of "Vec3 1 1 1"] h1 h2 val by simp
qed

text \<open>
  Claim C1, at the call \<^verbatim>\<open>A *= A\<close>. The claim has the transform produced by
  \<^verbatim>\<open>operator*=\<close> act as the left operand first and the right operand second, for every
  pair. Take for \<open>A\<close> the half turn about the \<open>z\<close> axis with translation \<open>(1,0,0)\<close>
  and scale two: a unit rotation and a positive scale. \<open>A\<close> maps the origin to
  \<open>(2,0,0)\<close> and that to \<open>(-2,0,0)\<close>, and so does the product \<open>A * A\<close>, whose left
  operand is a copy. In \<^verbatim>\<open>A *= A\<close> the right operand is the object under update: the
  translation is turned by the rotation already squared and has itself over the scale
  added, so the object ends with translation \<open>(3/2,0,0)\<close> and scale four and maps the
  origin to \<open>(6,0,0)\<close>.
\<close>

theorem mul_assign_on_itself_breaks_law:
  "quat_norm (m_rotation \<lparr>m_rotation = Quat 0 0 0 1, m_translation = Vec3 1 0 0, m_scale = 2\<rparr>) = 1
   \<and> 0 < m_scale \<lparr>m_rotation = Quat 0 0 0 1, m_translation = Vec3 1 0 0, m_scale = 2\<rparr>
   \<and> mul_assign_self \<lparr>m_rotation = Quat 0 0 0 1, m_translation = Vec3 1 0 0, m_scale = 2\<rparr>
     = \<lparr>m_rotation = Quat (- 1) 0 0 0, m_translation = Vec3 (3 / 2) 0 0, m_scale = 4\<rparr>
   \<and> transform (mul_assign_self
                  \<lparr>m_rotation = Quat 0 0 0 1, m_translation = Vec3 1 0 0, m_scale = 2\<rparr>)
               (Vec3 0 0 0)
     = Vec3 6 0 0
   \<and> transform \<lparr>m_rotation = Quat 0 0 0 1, m_translation = Vec3 1 0 0, m_scale = 2\<rparr>
       (transform \<lparr>m_rotation = Quat 0 0 0 1, m_translation = Vec3 1 0 0, m_scale = 2\<rparr>
          (Vec3 0 0 0))
     = Vec3 (- 2) 0 0
   \<and> mul \<lparr>m_rotation = Quat 0 0 0 1, m_translation = Vec3 1 0 0, m_scale = 2\<rparr>
         \<lparr>m_rotation = Quat 0 0 0 1, m_translation = Vec3 1 0 0, m_scale = 2\<rparr>
     = \<lparr>m_rotation = Quat (- 1) 0 0 0, m_translation = Vec3 (- 1 / 2) 0 0, m_scale = 4\<rparr>
   \<and> mul_vec (mul \<lparr>m_rotation = Quat 0 0 0 1, m_translation = Vec3 1 0 0, m_scale = 2\<rparr>
                  \<lparr>m_rotation = Quat 0 0 0 1, m_translation = Vec3 1 0 0, m_scale = 2\<rparr>)
             (Vec3 0 0 0)
     = Vec3 (- 2) 0 0"
proof -
  have n1: "quat_normalized (Quat 0 0 0 1) = Quat 0 0 0 1"
    by (simp add: quat_normalized_def quat_norm_def quat_squaredNorm_def)
  have u: "quat_norm (Quat 0 0 0 1) = 1"
    by (simp add: quat_norm_def quat_squaredNorm_def)
  show ?thesis
    by (simp add: u mul_assign_self_def mul_def mul_assign_def rotateT_def rotate_vec_def n1
        quat_mul_def transform_def mul_vec_def quat_transformVector_def Let_def vec_defs)
qed

section \<open>Single-field operations against the composition law\<close>

text \<open>
  Claim C4, as the sources have it. \<open>rotate\<close> multiplies the rotation and leaves the
  translation, where the product with the rotation-only transform also turns the
  translation; \<open>translate\<close> adds the vector, where the product with the
  translation-only transform adds it divided by the scale. The first pair differs
  already for a transform with translation \<open>(1,0,0)\<close> and a half turn, the second for
  scale two.
\<close>

theorem rotate_translate_not_mul_counterexample:
  "rotateT \<lparr>m_rotation = Quat 1 0 0 0, m_translation = Vec3 1 0 0, m_scale = 2\<rparr> (Quat 0 0 0 1)
     \<noteq> mul \<lparr>m_rotation = Quat 1 0 0 0, m_translation = Vec3 1 0 0, m_scale = 2\<rparr>
            (Transform_r (Quat 0 0 0 1))
   \<and> translateT \<lparr>m_rotation = Quat 1 0 0 0, m_translation = Vec3 1 0 0, m_scale = 2\<rparr> (Vec3 1 0 0)
     \<noteq> mul \<lparr>m_rotation = Quat 1 0 0 0, m_translation = Vec3 1 0 0, m_scale = 2\<rparr>
            (Transform_t (Vec3 1 0 0))"
proof -
  have n1: "quat_normalized (Quat 0 0 0 1) = Quat 0 0 0 1"
    by (simp add: quat_normalized_def quat_norm_def quat_squaredNorm_def)
  show ?thesis
    by (simp add: rotateT_def translateT_def mul_def mul_assign_def Transform_r_def
        Transform_t_def rotate_vec_def n1 quat_Identity_def quat_transformVector_def
        Let_def vec_defs)
qed

text \<open>
  Claim C4, amended. For a transform \<open>A\<close> of non-zero scale, \<open>A.rotate(r)\<close> and
  \<open>A * Transform(r)\<close> have the same rotation and scale, their translations being the
  translation of \<open>A\<close> and that translation turned by \<open>r\<close>: they are the same transform
  when the translation of \<open>A\<close> is zero. \<open>A.translate(t)\<close> and \<open>A * Transform(t)\<close> have
  the same rotation and scale, their translations being the translation of \<open>A\<close> plus
  \<open>t\<close> and plus \<open>t\<close> over the scale of \<open>A\<close>: they are the same transform when the
  scale of \<open>A\<close> is one.
\<close>

theorem rotate_translate_against_mul:
  assumes "m_scale A \<noteq> 0"
  shows "m_rotation (rotateT A r) = m_rotation (mul A (Transform_r r))
       \<and> m_scale (rotateT A r) = m_scale (mul A (Transform_r r))
       \<and> m_translation (rotateT A r) = m_translation A
       \<and> m_translation (mul A (Transform_r r))
           = quat_transformVector (quat_normalized r) (m_translation A)
       \<and> (m_translation A = vzero \<longrightarrow> rotateT A r = mul A (Transform_r r))
       \<and> m_rotation (translateT A t) = m_rotation (mul A (Transform_t t))
       \<and> m_scale (translateT A t) = m_scale (mul A (Transform_t t))
       \<and> m_translation (translateT A t) = vadd (m_translation A) t
       \<and> m_translation (mul A (Transform_t t)) = vadd (m_translation A) (vdiv t (m_scale A))
       \<and> (m_scale A = 1 \<longrightarrow> translateT A t = mul A (Transform_t t))
       \<and> mul_assign_r A r = rotateT A r
       \<and> mul_assign_t A t = translateT A t"
proof -
  have r1: "m_rotation (rotateT A r) = m_rotation (mul A (Transform_r r))"
    and r2: "m_scale (rotateT A r) = m_scale (mul A (Transform_r r))"
    and r3: "m_translation (rotateT A r) = m_translation A"
    and r4: "m_translation (mul A (Transform_r r))
           = quat_transformVector (quat_normalized r) (m_translation A)"
    by (simp_all add: mul_def mul_assign_fields rotateT_def Transform_r_def
        quat_normalized_idem vadd_vzero)
  have r5: "rotateT A r = mul A (Transform_r r)" if "m_translation A = vzero"
    using that
    by (simp add: mul_def mul_assign_def rotateT_def Transform_r_def rotate_vec_def Let_def
        quat_normalized_idem vadd_vzero transformVector_vzero)
  have t1: "m_rotation (translateT A t) = m_rotation (mul A (Transform_t t))"
    and t2: "m_scale (translateT A t) = m_scale (mul A (Transform_t t))"
    and t3: "m_translation (translateT A t) = vadd (m_translation A) t"
    and t4: "m_translation (mul A (Transform_t t)) = vadd (m_translation A) (vdiv t (m_scale A))"
    by (simp_all add: mul_def mul_assign_fields translateT_def Transform_t_def
        quat_normalized_Identity quat_mul_Identity_left transformVector_Identity)
  have t5: "translateT A t = mul A (Transform_t t)" if "m_scale A = 1"
    using that
    by (simp add: mul_def mul_assign_def rotateT_def translateT_def Transform_t_def
        rotate_vec_def Let_def quat_normalized_Identity quat_mul_Identity_left
        transformVector_Identity)
       (simp add: vec_defs)
  have ops: "mul_assign_r A r = rotateT A r" "mul_assign_t A t = translateT A t"
    by (simp_all add: mul_assign_r_def mul_assign_t_def)
  show ?thesis
    using r1 r2 r3 r4 r5 t1 t2 t3 t4 t5 ops by blast
qed

theorem rotate_translate_against_mul_witness:
  "m_scale \<lparr>m_rotation = Quat 0 1 0 0, m_translation = vzero, m_scale = 1\<rparr> \<noteq> 0
   \<and> m_translation \<lparr>m_rotation = Quat 0 1 0 0, m_translation = vzero, m_scale = 1\<rparr> = vzero
   \<and> m_scale \<lparr>m_rotation = Quat 0 1 0 0, m_translation = vzero, m_scale = 1\<rparr> = 1
   \<and> rotateT \<lparr>m_rotation = Quat 0 1 0 0, m_translation = vzero, m_scale = 1\<rparr> (Quat 0 0 0 2)
     = mul \<lparr>m_rotation = Quat 0 1 0 0, m_translation = vzero, m_scale = 1\<rparr>
           (Transform_r (Quat 0 0 0 2))
   \<and> translateT \<lparr>m_rotation = Quat 0 1 0 0, m_translation = vzero, m_scale = 1\<rparr> (Vec3 1 2 3)
     = mul \<lparr>m_rotation = Quat 0 1 0 0, m_translation = vzero, m_scale = 1\<rparr>
           (Transform_t (Vec3 1 2 3))
   \<and> translateT \<lparr>m_rotation = Quat 0 1 0 0, m_translation = vzero, m_scale = 1\<rparr> (Vec3 1 2 3)
     = \<lparr>m_rotation = Quat 0 1 0 0, m_translation = Vec3 1 2 3, m_scale = 1\<rparr>"
proof -
  let ?A = "\<lparr>m_rotation = Quat 0 1 0 0, m_translation = vzero, m_scale = 1\<rparr>"
  have h: "m_scale ?A \<noteq> 0" by simp
  show ?thesis
    using rotate_translate_against_mul [OF h, of "Quat 0 0 0 2" "Vec3 1 2 3"]
    by (simp add: translateT_def vec_defs)
qed

section \<open>The unit norm of the rotation\<close>

lemma unit_rotateT:
  assumes "quat_norm (m_rotation T) = 1" and "r \<noteq> Quat 0 0 0 0"
  shows "quat_norm (m_rotation (rotateT T r)) = 1"
  using assms by (simp add: rotateT_def quat_norm_mul quat_norm_normalized)

lemma unit_invert:
  assumes "quat_norm (m_rotation T) = 1"
  shows "quat_norm (m_rotation (invert T)) = 1"
  using assms by (simp add: invert_fields quat_norm_inverse_unit)

lemma unit_mul_assign:
  assumes "quat_norm (m_rotation T) = 1" and "quat_norm (m_rotation other) = 1"
  shows "quat_norm (m_rotation (mul_assign T other)) = 1"
  using assms by (simp add: mul_assign_fields quat_normalized_unit quat_norm_mul)

lemma unit_mul_assign_self:
  assumes "quat_norm (m_rotation T) = 1"
  shows "quat_norm (m_rotation (mul_assign_self T)) = 1"
  using assms
  by (simp add: mul_assign_self_def rotateT_def Let_def quat_normalized_unit quat_norm_mul)

lemma unit_constructors:
  assumes "r \<noteq> Quat 0 0 0 0"
  shows "quat_norm (m_rotation Transform_default) = 1"
    and "quat_norm (m_rotation (Transform_r r)) = 1"
    and "quat_norm (m_rotation (Transform_t t)) = 1"
    and "quat_norm (m_rotation (Transform_s s)) = 1"
    and "quat_norm (m_rotation (Transform_rt r t)) = 1"
    and "quat_norm (m_rotation (Transform_rts r t s)) = 1"
    and "quat_norm (m_rotation Identity) = 1"
  using assms
  by (simp_all add: Transform_default_def Transform_r_def Transform_t_def Transform_s_def
      Transform_rt_def Transform_rts_def Identity_def quat_norm_Identity quat_norm_normalized
      quat_normalized_Identity)

lemma unit_resets:
  assumes "r \<noteq> Quat 0 0 0 0"
  shows "quat_norm (m_rotation (setRotation T r)) = 1"
    and "quat_norm (m_rotation (assign_t T t)) = 1"
    and "quat_norm (m_rotation (assign_s T s)) = 1"
    and "quat_norm (m_rotation (assign_r T r)) = 1"
    and "quat_norm (m_rotation (setIdentity T)) = 1"
  using assms
  by (simp_all add: setRotation_def assign_t_def assign_s_def assign_r_def setIdentity_def
      quat_norm_Identity quat_norm_normalized)

lemma unit_kept:
  assumes "quat_norm (m_rotation T) = 1"
  shows "quat_norm (m_rotation (setTranslation T t)) = 1"
    and "quat_norm (m_rotation (translateT T t)) = 1"
    and "quat_norm (m_rotation (setScale T s)) = 1"
    and "quat_norm (m_rotation (scaleT T s)) = 1"
    and "quat_norm (m_rotation (normalizeT T)) = 1"
  using assms
  by (simp_all add: setTranslation_def translateT_def setScale_def scaleT_def normalizeT_def
      quat_normalized_unit)

text \<open>
  Claim C7, as the sources have it. Every member that takes a quaternion normalises it,
  and the zero quaternion has no normalisation: after \<open>rotate\<close>, \<open>setRotation\<close> or
  the construction from the zero quaternion the rotation field has norm zero.
\<close>

theorem rotation_unit_norm_counterexample:
  "quat_norm (m_rotation Transform_default) = 1
   \<and> quat_norm (m_rotation (rotateT Transform_default (Quat 0 0 0 0))) \<noteq> 1
   \<and> quat_norm (m_rotation (setRotation Transform_default (Quat 0 0 0 0))) \<noteq> 1
   \<and> quat_norm (m_rotation (Transform_r (Quat 0 0 0 0))) \<noteq> 1"
  by (simp add: Transform_default_def rotateT_def setRotation_def Transform_r_def
      quat_normalized_def quat_mul_def quat_norm_def quat_squaredNorm_def quat_Identity_def)

text \<open>
  Claim C7, amended. For a transform with a rotation of norm one, the rotation field
  has norm one again after every constructor and every mutating member (\<open>setRotation\<close>,
  \<open>rotate\<close>, \<open>setTranslation\<close>, \<open>translate\<close>, \<open>setScale\<close>, \<open>scale\<close>, \<open>invert\<close>,
  \<open>inverse\<close>, \<open>setIdentity\<close>, \<open>normalize\<close>, the three assignments and the four
  products), provided that the quaternion handed to a member is not the zero quaternion
  and that a transform handed to a member has a rotation of norm one.
\<close>

theorem rotation_stays_unit_norm:
  assumes "quat_norm (m_rotation T) = 1" and "quat_norm (m_rotation other) = 1"
    and "r \<noteq> Quat 0 0 0 0"
  shows "quat_norm (m_rotation Transform_default) = 1
       \<and> quat_norm (m_rotation (Transform_r r)) = 1
       \<and> quat_norm (m_rotation (Transform_t t)) = 1
       \<and> quat_norm (m_rotation (Transform_s s)) = 1
       \<and> quat_norm (m_rotation (Transform_rt r t)) = 1
       \<and> quat_norm (m_rotation (Transform_rts r t s)) = 1
       \<and> quat_norm (m_rotation Identity) = 1
       \<and> quat_norm (m_rotation (setRotation T r)) = 1
       \<and> quat_norm (m_rotation (rotateT T r)) = 1
       \<and> quat_norm (m_rotation (setTranslation T t)) = 1
       \<and> quat_norm (m_rotation (translateT T t)) = 1
       \<and> quat_norm (m_rotation (setScale T s)) = 1
       \<and> quat_norm (m_rotation (scaleT T s)) = 1
       \<and> quat_norm (m_rotation (invert T)) = 1
       \<and> quat_norm (m_rotation (inverseT T)) = 1
       \<and> quat_norm (m_rotation (setIdentity T)) = 1
       \<and> quat_norm (m_rotation (normalizeT T)) = 1
       \<and> quat_norm (m_rotation (assign_t T t)) = 1
       \<and> quat_norm (m_rotation (assign_s T s)) = 1
       \<and> quat_norm (m_rotation (assign_r T r)) = 1
       \<and> quat_norm (m_rotation (mul_assign_t T t)) = 1
       \<and> quat_norm (m_rotation (mul_assign_s T s)) = 1
       \<and> quat_norm (m_rotation (mul_assign_r T r)) = 1
       \<and> quat_norm (m_rotation (mul_assign T other)) = 1
       \<and> quat_norm (m_rotation (mul_assign_self T)) = 1
       \<and> quat_norm (m_rotation (mul T other)) = 1"
  using assms
  by (simp add: unit_constructors unit_resets unit_kept unit_rotateT unit_invert
      unit_mul_assign unit_mul_assign_self inverseT_def mul_def mul_assign_t_def
      mul_assign_s_def mul_assign_r_def)

theorem rotation_stays_unit_norm_witness:
  "quat_norm (m_rotation (Transform_t (Vec3 1 2 3))) = 1
   \<and> quat_norm (m_rotation Transform_default) = 1
   \<and> Quat 1 2 3 4 \<noteq> Quat 0 0 0 0
   \<and> quat_norm (m_rotation (rotateT (Transform_t (Vec3 1 2 3)) (Quat 1 2 3 4))) = 1
   \<and> quat_norm (m_rotation (Transform_r (Quat 1 2 3 4))) = 1
   \<and> quat_norm (m_rotation (invert (Transform_t (Vec3 1 2 3)))) = 1
   \<and> quat_norm (m_rotation (mul_assign (Transform_t (Vec3 1 2 3)) Transform_default)) = 1"
proof -
  have h1: "quat_norm (m_rotation (Transform_t (Vec3 1 2 3))) = 1"
    and h2: "quat_norm (m_rotation Transform_default) = 1"
    by (simp_all add: Transform_t_def Transform_default_def quat_norm_Identity)
  have h3: "Quat 1 2 3 4 \<noteq> Quat 0 0 0 0" by simp
  show ?thesis
    using rotation_stays_unit_norm [OF h1 h2 h3] h1 h2 h3 by simp
qed

section \<open>The parallelism residual and its gradients\<close>

lemma squaredNorm_nonneg: "0 \<le> squaredNorm a"
  by (simp add: squaredNorm_def)

lemma squaredNorm_vadd_vsub:
  "squaredNorm (vadd a b) - squaredNorm (vsub a b) = 4 * dot a b"
  by (simp add: vec_defs algebra_simps)

lemma dot_nonneg_iff_vnorm_le:
  "0 \<le> dot d1 d2 \<longleftrightarrow> vnorm (vsub d1 d2) \<le> vnorm (vadd d1 d2)"
proof -
  have "vnorm (vsub d1 d2) \<le> vnorm (vadd d1 d2)
      \<longleftrightarrow> squaredNorm (vsub d1 d2) \<le> squaredNorm (vadd d1 d2)"
    by (simp add: vnorm_def)
  then show ?thesis
    using squaredNorm_vadd_vsub [of d1 d2] by linarith
qed

text \<open>
  Claim C3. The residual is the norm of the difference for \<open>Same\<close>, the norm of the sum
  for \<open>Opposite\<close>, and for \<open>Both\<close> the first when the dot product is at least zero and
  the second otherwise, so that a dot product of exactly zero takes the \<open>Same\<close>
  formula; the residual of \<open>(1,0,0)\<close> and \<open>(0,1,0)\<close> under \<open>Same\<close> is the square root of
  two.
\<close>

theorem calc_residual_by_direction:
  "calc (Vec3 x1 y1 z1) (Vec3 x2 y2 z2) Same
     = sqrt ((x1 - x2)\<^sup>2 + (y1 - y2)\<^sup>2 + (z1 - z2)\<^sup>2)
   \<and> calc (Vec3 x1 y1 z1) (Vec3 x2 y2 z2) Opposite
     = sqrt ((x1 + x2)\<^sup>2 + (y1 + y2)\<^sup>2 + (z1 + z2)\<^sup>2)
   \<and> calc d1 d2 Same = vnorm (vsub d1 d2)
   \<and> calc d1 d2 Opposite = vnorm (vadd d1 d2)
   \<and> calc d1 d2 Both
     = (if 0 \<le> dot d1 d2 then vnorm (vsub d1 d2) else vnorm (vadd d1 d2))
   \<and> calc d1 d2 Both
     = (if dot d1 d2 = 0 then calc d1 d2 Same
        else if 0 < dot d1 d2 then calc d1 d2 Same else calc d1 d2 Opposite)
   \<and> calc (Vec3 1 0 0) (Vec3 0 1 0) Same = sqrt 2"
  by (simp add: vnorm_def squaredNorm_def vadd_def vsub_def power2_eq_square)

text \<open>
  Claim C5. With direction \<open>Both\<close>, the two directional gradients take the branch the
  residual takes on the same pair of vectors: all three agree with their \<open>Same\<close> value
  when the dot product is at least zero and with their \<open>Opposite\<close> value otherwise.
\<close>

theorem gradients_follow_calc_branch:
  "(let b = (if 0 \<le> dot d1 d2 then Same else Opposite)
    in calc d1 d2 Both = calc d1 d2 b
     \<and> calcGradFirst d1 d2 dd1 Both = calcGradFirst d1 d2 dd1 b
     \<and> calcGradSecond d1 d2 dd2 Both = calcGradSecond d1 d2 dd2 b)"
  by (simp add: Let_def)

text \<open>
  Claim C10. The residual for \<open>Both\<close> is the smaller of the residuals for \<open>Same\<close> and
  \<open>Opposite\<close>, since the dot product is at least zero exactly when the difference is
  not longer than the sum.
\<close>

theorem calc_Both_is_min:
  "calc d1 d2 Both = min (calc d1 d2 Same) (calc d1 d2 Opposite)
   \<and> (0 \<le> dot d1 d2 \<longleftrightarrow> vnorm (vsub d1 d2) \<le> vnorm (vadd d1 d2))"
  using dot_nonneg_iff_vnorm_le [of d1 d2] by (simp add: min_def)

text \<open>
  Claim C6. Each full gradient fails its assertion when the direction is \<open>Both\<close>; for
  \<open>Same\<close> and \<open>Opposite\<close> no assertion is reached and the value written is the closed
  form: the difference (first) or its negative (second) over the norm of the difference
  for \<open>Same\<close>, the sum over its norm for \<open>Opposite\<close>.
\<close>

theorem full_gradient_asserts_on_Both:
  "calcGradFirstComp d1 d2 Both = Inl AssertionFailed
   \<and> calcGradSecondComp d1 d2 Both = Inl AssertionFailed
   \<and> (dir \<noteq> Both \<longrightarrow>
        calcGradFirstComp d1 d2 dir \<noteq> Inl AssertionFailed
      \<and> calcGradSecondComp d1 d2 dir \<noteq> Inl AssertionFailed)
   \<and> calcGradFirstComp d1 d2 Same = Inr (vdiv (vsub d1 d2) (vnorm (vsub d1 d2)))
   \<and> calcGradSecondComp d1 d2 Same = Inr (vdiv (vsub d2 d1) (vnorm (vsub d1 d2)))
   \<and> calcGradFirstComp d1 d2 Opposite = Inr (vdiv (vadd d1 d2) (vnorm (vadd d1 d2)))
   \<and> calcGradSecondComp d1 d2 Opposite = Inr (vdiv (vadd d2 d1) (vnorm (vadd d1 d2)))"
  by (cases dir) simp_all

theorem full_gradient_asserts_on_Both_witness:
  "Same \<noteq> Both
   \<and> calcGradFirstComp (Vec3 2 0 0) (Vec3 1 0 0) Same = Inr (Vec3 1 0 0)
   \<and> calcGradSecondComp (Vec3 2 0 0) (Vec3 1 0 0) Same = Inr (Vec3 (- 1) 0 0)
   \<and> calcGradFirstComp (Vec3 2 0 0) (Vec3 1 0 0) Both = Inl AssertionFailed"
  using full_gradient_asserts_on_Both [of "Vec3 2 0 0" "Vec3 1 0 0" Same]
  by (simp add: vnorm_def vec_defs)

section \<open>The full gradients on parameter blocks\<close>

lemma length_ge_3E:
  assumes "3 \<le> length (g :: real list)"
  obtains a b c rest where "g = a # b # c # rest"
  using assms by (auto simp: numeral_3_eq_3 Suc_le_length_iff)

lemma head3_setZero_Inr:
  assumes "head3_setZero g = Inr g0"
  shows "length g0 = length g" and "3 \<le> length g"
    and "g0 ! 0 = 0" and "g0 ! 1 = 0" and "g0 ! 2 = 0"
    and "\<And>i. 3 \<le> i \<Longrightarrow> g0 ! i = g ! i"
proof -
  from assms have len: "3 \<le> length g" and g0: "g0 = g[0 := 0, 1 := 0, 2 := 0]"
    by (auto simp: head3_setZero_def split: if_splits)
  from len obtain a b c rest where g: "g = a # b # c # rest"
    by (rule length_ge_3E)
  have g0': "g0 = 0 # 0 # 0 # rest"
    by (simp add: g0 g eval_nat_numeral)
  show "length g0 = length g" "3 \<le> length g" "g0 ! 0 = 0" "g0 ! 1 = 0" "g0 ! 2 = 0"
    using len by (simp_all add: g0' g eval_nat_numeral)
  show "g0 ! i = g ! i" if "3 \<le> i" for i
  proof -
    from that obtain k where "i = Suc (Suc (Suc k))"
      by (metis numeral_3_eq_3 Suc_le_D Suc_le_mono)
    then show ?thesis by (simp add: g0' g)
  qed
qed

lemma segment3_assign_Inr:
  assumes "segment3_assign g0 3 v = Inr g'"
  shows "length g' = length g0"
    and "\<And>i. i < 3 \<Longrightarrow> g' ! i = g0 ! i"
    and "\<And>i. 6 \<le> i \<Longrightarrow> g' ! i = g0 ! i"
    and "g' ! 3 = vx v" and "g' ! 4 = vy v" and "g' ! 5 = vz v"
  using assms by (auto simp: segment3_assign_def nth_list_update split: if_splits)

lemma tail3_assign_Inr:
  assumes "tail3_assign g0 v = Inr g'"
  shows "length g' = length g0"
    and "\<And>i. i + 3 < length g0 \<Longrightarrow> g' ! i = g0 ! i"
    and "g' ! (length g0 - 3) = vx v" and "g' ! (length g0 - 2) = vy v"
    and "g' ! (length g0 - 1) = vz v"
  using assms by (auto simp: tail3_assign_def Let_def nth_list_update split: if_splits)

lemma cylinder_frame:
  assumes "head3_setZero g = Inr g0" and "segment3_assign g0 3 v = Inr g'"
  shows "length g' = length g \<and> (\<forall>i<3. g' ! i = 0) \<and> (\<forall>i\<ge>6. g' ! i = g ! i)"
proof -
  have "g' ! i = 0" if "i < 3" for i
  proof -
    from that have "i = 0 \<or> i = 1 \<or> i = 2" by arith
    then have "g0 ! i = 0" using head3_setZero_Inr(3-5) [OF assms(1)] by auto
    then show ?thesis using segment3_assign_Inr(2) [OF assms(2) that] by simp
  qed
  moreover have "g' ! i = g ! i" if "6 \<le> i" for i
    using that segment3_assign_Inr(3) [OF assms(2) that] head3_setZero_Inr(6) [OF assms(1), of i]
    by simp
  ultimately show ?thesis
    using segment3_assign_Inr(1) [OF assms(2)] head3_setZero_Inr(1) [OF assms(1)] by simp
qed

lemma line_frame:
  assumes "head3_setZero g = Inr g0" and "tail3_assign g0 v = Inr g'" and "length g = 6"
  shows "length g' = 6 \<and> (\<forall>i<3. g' ! i = 0)
       \<and> g' ! 3 = vx v \<and> g' ! 4 = vy v \<and> g' ! 5 = vz v"
proof -
  have len: "length g0 = 6" using head3_setZero_Inr(1) [OF assms(1)] assms(3) by simp
  have "g' ! i = 0" if "i < 3" for i
  proof -
    from that have "i = 0 \<or> i = 1 \<or> i = 2" by arith
    then have "g0 ! i = 0" using head3_setZero_Inr(3-5) [OF assms(1)] by auto
    moreover have "i + 3 < length g0" using that len by simp
    ultimately show ?thesis using tail3_assign_Inr(2) [OF assms(2)] by simp
  qed
  then show ?thesis
    using tail3_assign_Inr(1,3,4,5) [OF assms(2)] len by simp
qed

text \<open>
  What the two variants leave of the buffer. On a block of six parameters the
  line variant zeroes the first three entries and writes the last three, so every entry
  outside the direction is zero. The cylinder variant zeroes the first three entries and
  writes entries 3 to 5; an entry from index 6 on keeps the value the buffer came with.
\<close>

lemma line_gradient_frame:
  assumes "line_calculateGradientFirstComplete dir p1 p2 g = Inr g'
         \<or> line_calculateGradientSecondComplete dir p1 p2 g = Inr g'"
    and "length g = 6"
  shows "length g' = 6 \<and> (\<forall>i<3. g' ! i = 0)"
proof -
  from assms(1) obtain g0 v where "head3_setZero g = Inr g0" and "tail3_assign g0 v = Inr g'"
    by (auto simp: line_calculateGradientFirstComplete_def
        line_calculateGradientSecondComplete_def split: sum.splits)
  then show ?thesis using line_frame [of g g0 v g'] assms(2) by simp
qed

lemma cylinder_gradient_frame:
  assumes "cylinder_calculateGradientFirstComplete dir p1 p2 g = Inr g'
         \<or> cylinder_calculateGradientSecondComplete dir p1 p2 g = Inr g'"
  shows "length g' = length g \<and> (\<forall>i<3. g' ! i = 0) \<and> (\<forall>i\<ge>6. g' ! i = g ! i)"
proof -
  from assms obtain g0 v where "head3_setZero g = Inr g0" and "segment3_assign g0 3 v = Inr g'"
    by (auto simp: cylinder_calculateGradientFirstComplete_def
        cylinder_calculateGradientSecondComplete_def split: sum.splits)
  then show ?thesis by (rule cylinder_frame)
qed

text \<open>
  Claim C8, at a cylinder pair. The blocks have seven entries (position, axis, radius),
  the direction is \<open>Same\<close>, the axes are \<open>(2,0,0)\<close> and \<open>(1,0,0)\<close>, and the gradient
  buffer holds fives on entry. Both complete gradients come back with the position
  entries zero and the axis entries written, and with the radius entry still five,
  where the claim has every entry outside the direction zero.
\<close>

theorem cylinder_gradient_keeps_radius_entry:
  "cylinder_calculateGradientFirstComplete Same
       [0, 0, 0, 2, 0, 0, 1] [0, 0, 0, 1, 0, 0, 1] [5, 5, 5, 5, 5, 5, 5]
     = Inr [0, 0, 0, 1, 0, 0, 5]
   \<and> cylinder_calculateGradientSecondComplete Same
       [0, 0, 0, 2, 0, 0, 1] [0, 0, 0, 1, 0, 0, 1] [5, 5, 5, 5, 5, 5, 5]
     = Inr [0, 0, 0, - 1, 0, 0, 5]"
  by (simp add: cylinder_calculateGradientFirstComplete_def
      cylinder_calculateGradientSecondComplete_def head3_setZero_def segment3_def
      segment3_assign_def vnorm_def vec_defs eval_nat_numeral)

end
